theory Spec2Isabelle
  imports Main
begin

section \<open>convert\_alarm.py: strings and the size token\<close>

text \<open>
  File names, command lines, the size argument and what tools write are kept as the bytes
  the process hands over and receives: a \<open>string\<close>, one \<open>char\<close> per byte. A Python
  \<open>str\<close> is a list of code points, natural numbers. The interpreter turns the bytes of an
  argument into a \<open>str\<close> with \<open>os.fsdecode\<close>: UTF-8, where a byte that starts no
  well-formed sequence becomes the lone surrogate 0xDC00 + byte (the surrogateescape
  handler), and turns it back into the same bytes when the argument is passed on to a tool.
  The answer typed at the overwrite question is kept as text, one \<open>char\<close> per code point
  (code points up to 255).
\<close>

subsection \<open>\<open>os.fsdecode\<close>\<close>

definition continuation :: "nat \<Rightarrow> bool" where
  "continuation b = (128 \<le> b \<and> b \<le> 191)"

text \<open>The second byte after the lead bytes 0xE0 to 0xEF, and after 0xF0 to 0xF4: the ranges
  that exclude overlong forms, surrogates and code points above 0x10FFFF.\<close>

definition second_of_three :: "nat \<Rightarrow> nat \<Rightarrow> bool" where
  "second_of_three a b =
     (if a = 224 then 160 \<le> b \<and> b \<le> 191
      else if a = 237 then 128 \<le> b \<and> b \<le> 159
      else continuation b)"

definition second_of_four :: "nat \<Rightarrow> nat \<Rightarrow> bool" where
  "second_of_four a b =
     (if a = 240 then 144 \<le> b \<and> b \<le> 191
      else if a = 244 then 128 \<le> b \<and> b \<le> 143
      else continuation b)"

text \<open>\<open>utf8_first a rest\<close>: the code point that starts at the byte \<open>a\<close>, and how many of
  the bytes after it belong to it.\<close>

definition utf8_first :: "nat \<Rightarrow> nat list \<Rightarrow> nat \<times> nat" where
  "utf8_first a rest =
     (if a < 128 then (a, 0)
      else if 194 \<le> a \<and> a \<le> 223 then
        (case rest of
           b # _ \<Rightarrow> if continuation b then ((a - 192) * 64 + (b - 128), 1) else (56320 + a, 0)
         | _ \<Rightarrow> (56320 + a, 0))
      else if 224 \<le> a \<and> a \<le> 239 then
        (case rest of
           b # c # _ \<Rightarrow>
             if second_of_three a b \<and> continuation c
             then ((a - 224) * 4096 + (b - 128) * 64 + (c - 128), 2)
             else (56320 + a, 0)
         | _ \<Rightarrow> (56320 + a, 0))
      else if 240 \<le> a \<and> a \<le> 244 then
        (case rest of
           b # c # d # _ \<Rightarrow>
             if second_of_four a b \<and> continuation c \<and> continuation d
             then ((a - 240) * 262144 + (b - 128) * 4096 + (c - 128) * 64 + (d - 128), 3)
             else (56320 + a, 0)
         | _ \<Rightarrow> (56320 + a, 0))
      else (56320 + a, 0))"

fun utf8_decode :: "nat list \<Rightarrow> nat list" where
  "utf8_decode [] = []"
| "utf8_decode (a # rest) =
     fst (utf8_first a rest) # utf8_decode (drop (snd (utf8_first a rest)) rest)"

definition os_fsdecode :: "string \<Rightarrow> nat list" where
  "os_fsdecode s = utf8_decode (map of_char s)"

subsection \<open>Characters\<close>

text \<open>
  The decimal digits of the interpreter's Unicode database (Unicode 14.0, Python 3.11):
  the code point of the digit zero of every script; the other nine digits of the script
  follow it.
\<close>

definition DECIMAL_ZEROS :: "nat list" where
  "DECIMAL_ZEROS =
     [48, 1632, 1776, 1984, 2406, 2534, 2662, 2790, 2918, 3046, 3174, 3302, 3430, 3558, 3664,
      3792, 3872, 4160, 4240, 6112, 6160, 6470, 6608, 6784, 6800, 6992, 7088, 7232, 7248,
      42528, 43216, 43264, 43472, 43504, 43600, 44016, 65296, 66720, 68912, 69734, 69872,
      69942, 70096, 70384, 70736, 70864, 71248, 71360, 71472, 71904, 72016, 72784, 73040,
      73120, 92768, 92864, 93008, 120782, 120792, 120802, 120812, 120822, 123200, 123632,
      125264, 130032]"

definition decimal_value :: "nat \<Rightarrow> nat option" where
  "decimal_value c =
     (case filter (\<lambda>zero. zero \<le> c \<and> c < zero + 10) DECIMAL_ZEROS of
        [] \<Rightarrow> None
      | zero # _ \<Rightarrow> Some (c - zero))"

definition is_digit :: "nat \<Rightarrow> bool" where
  "is_digit c = (decimal_value c \<noteq> None)"

text \<open>
  The blanks that \<open>int()\<close> skips around a number: below 127 the six that C calls space
  (tab, line feed, vertical tab, form feed, carriage return, space), from 127 on the
  characters that Unicode calls white space.
\<close>

definition is_int_blank :: "nat \<Rightarrow> bool" where
  "is_int_blank c =
     (c \<in> set [9, 10, 11, 12, 13, 32]
      \<or> c \<in> set [133, 160, 5760, 8192, 8193, 8194, 8195, 8196, 8197, 8198, 8199, 8200, 8201,
                  8202, 8232, 8233, 8239, 8287, 12288])"

text \<open>
  \<open>str.upper()\<close> of a character, as far as the test against K, M, G and T can tell: \<open>a\<close>
  to \<open>z\<close> become \<open>A\<close> to \<open>Z\<close>, and no other character has one of the four letters as its
  upper-case form, so every other character is left as it is.
\<close>

definition code_upper :: "nat \<Rightarrow> nat" where
  "code_upper c = (if 97 \<le> c \<and> c \<le> 122 then c - 32 else c)"

text \<open>The blanks of the answer that \<open>str.strip()\<close> removes, among the code points up to
  255: those that \<open>int()\<close> skips there and the four separators 28 to 31.\<close>

definition is_int_space :: "char \<Rightarrow> bool" where
  "is_int_space c = (c \<in> set [CHR 0x09, CHR 0x0A, CHR 0x0B, CHR 0x0C, CHR 0x0D, CHR 0x20,
                               CHR 0x85, CHR 0xA0])"

definition is_space :: "char \<Rightarrow> bool" where
  "is_space c = (is_int_space c \<or> c \<in> set [CHR 0x1C, CHR 0x1D, CHR 0x1E, CHR 0x1F])"

definition strip_with :: "('a \<Rightarrow> bool) \<Rightarrow> 'a list \<Rightarrow> 'a list" where
  "strip_with blank s = rev (dropWhile blank (rev (dropWhile blank s)))"

definition lower :: "char \<Rightarrow> char" where
  "lower c = (case map_of (zip ''ABCDEFGHIJKLMNOPQRSTUVWXYZ'' ''abcdefghijklmnopqrstuvwxyz'') c of
                Some l \<Rightarrow> l | None \<Rightarrow> c)"

text \<open>\<open>needle in haystack\<close> on strings.\<close>

fun contains :: "string \<Rightarrow> string \<Rightarrow> bool" where
  "contains needle [] = (needle = [])"
| "contains needle (c # cs) = (take (length needle) (c # cs) = needle \<or> contains needle cs)"

subsection \<open>The built-in \<open>int(text)\<close>\<close>

text \<open>
  The digits of an integer literal: one or more groups of digits, with a single underscore
  (code point 95) between two groups.
\<close>

fun digit_groups :: "nat list \<Rightarrow> bool" where
  "digit_groups [] = False"
| "digit_groups [c] = is_digit c"
| "digit_groups (c # d # r) =
     (is_digit c \<and> (if d = 95 then digit_groups r else digit_groups (d # r)))"

definition digit_value :: "nat \<Rightarrow> nat" where
  "digit_value c = (case decimal_value c of Some v \<Rightarrow> v | None \<Rightarrow> 0)"

definition decimal :: "nat list \<Rightarrow> nat" where
  "decimal ds = foldl (\<lambda>n c. 10 * n + digit_value c) 0 ds"

text \<open>
  \<open>py_int lim text\<close> is \<open>int(text)\<close>: \<open>None\<close> stands for the ValueError. The text is read
  without the blanks around it, a sign (\<open>-\<close> is 45, \<open>+\<close> is 43) may come first, and the rest
  has to be digit groups. \<open>lim\<close> is the interpreter's limit on the number of digits
  (\<open>sys.get_int_max_str_digits()\<close>, 4300 unless configured, 0 for no limit, and no limit in
  interpreters that predate it); leading zeros count, underscores do not.
\<close>

definition py_int :: "nat \<Rightarrow> nat list \<Rightarrow> int option" where
  "py_int lim text =
     (let t = strip_with is_int_blank text;
          negative = (take 1 t = [45]);
          body = (if take 1 t = [45] \<or> take 1 t = [43] then drop 1 t else t);
          ds = filter is_digit body
      in if digit_groups body \<and> (lim = 0 \<or> length ds \<le> lim)
         then Some (if negative then - int (decimal ds) else int (decimal ds))
         else None)"

subsection \<open>The size check of \<open>create_image\<close>\<close>

datatype pyexc = ValueError | IndexError | KeyError | FileNotFoundError | UnicodeDecodeError
  | EOFError | KeyboardInterrupt | OSError

text \<open>
  Lines 137 to 141, the body of the \<open>try\<close>, on the \<open>str\<close> that is the size:
  \<open>size_num = int(size[:-1])\<close>, then \<open>size_unit = size[-1].upper()\<close>, then the test of the
  unit against K, M, G, T (75, 77, 71, 84).
\<close>

definition size_check :: "nat \<Rightarrow> nat list \<Rightarrow> pyexc + int \<times> nat" where
  "size_check lim size' =
     (case py_int lim (butlast size') of
        None \<Rightarrow> Inl ValueError
      | Some size_num' \<Rightarrow>
          if size' = [] then Inl IndexError
          else let size_unit = code_upper (last size')
               in if size_unit \<notin> set [75, 77, 71, 84] then Inl ValueError
                  else Inr (size_num', size_unit))"

text \<open>The same on the bytes of the size argument.\<close>

definition parse_size :: "nat \<Rightarrow> string \<Rightarrow> pyexc + int \<times> nat" where
  "parse_size lim size' = size_check lim (os_fsdecode size')"

text \<open>
  The size token as the specification words it: a positive integer written in the digits
  \<open>0\<close> to \<open>9\<close>, followed by one of the letters K, M, G, T in either case.
\<close>

definition spec_size_token :: "nat list \<Rightarrow> bool" where
  "spec_size_token s =
     (s \<noteq> [] \<and> butlast s \<noteq> [] \<and> list_all (\<lambda>c. 48 \<le> c \<and> c \<le> 57) (butlast s)
      \<and> 0 < decimal (butlast s)
      \<and> last s \<in> set [75, 77, 71, 84, 107, 109, 103, 116])"

section \<open>The world the script runs in\<close>

text \<open>
  The file system holds regular files: a path is mapped to the bytes of the file there.
  The \<open>trace\<close> records, in order, what the script asked of its surroundings, and
  \<open>Log_failure\<close> where \<open>download_alarm\<close> or \<open>create_image\<close> reports a failure to the
  log: their calls of \<open>logging.error\<close>, and the \<open>logging.warning\<close> of their handlers
  for Ctrl-C. Other messages are not recorded.
\<close>

type_synonym path = string
type_synonym bytes = string
type_synonym filesystem = "path \<rightharpoonup> bytes"

datatype event =
    Statvfs path
  | Run "string list" "bytes option"
  | Prompt
  | Remove path
  | Log_failure

record world =
  files :: filesystem
  trace :: "event list"

text \<open>
  What \<open>subprocess.run(cmd, check=True)\<close> can come back with: the tool ran and exited with
  a return code (raised as CalledProcessError by \<open>check=True\<close> when the code is not 0),
  Ctrl-C arrived while it ran, or the executable was not found. The captured standard error
  is kept as far as the script looks at it: empty, bytes that decode as UTF-8, or bytes that
  do not.
\<close>

datatype diagnostics = Silent | Readable | Unreadable

datatype proc = Exited int diagnostics | Interrupt | Missing

text \<open>What \<open>input()\<close> can come back with: a line, end of input, or Ctrl-C.\<close>

datatype reply = Line string | End_of_input | Ctrl_C

record env =
  sys_platform :: string
  os_release :: "string option"
  shutil_which :: "string \<Rightarrow> bool"
  statvfs_result :: "path \<Rightarrow> (nat \<times> nat) option"
  subprocess_run :: "string list \<Rightarrow> bytes option \<Rightarrow> filesystem \<Rightarrow> proc \<times> filesystem"
  input_reply :: reply
  int_max_str_digits :: nat
  os_remove_fails :: "path \<Rightarrow> bool"

text \<open>
  \<open>os_release\<close> is the text of \<open>/etc/os-release\<close> (\<open>None\<close> when there is no such file),
  \<open>shutil_which\<close> tells whether a command is on the path, \<open>statvfs_result\<close> gives
  \<open>f_frsize\<close> and \<open>f_bavail\<close> of a directory (\<open>None\<close> when it does not exist), and
  \<open>subprocess_run\<close> gives, for a command line, its standard input and the files before, the
  outcome and the files after, and \<open>os_remove_fails\<close> tells where the system refuses
  \<open>os.remove\<close> (OSError).
\<close>

text \<open>How a function of the script stops early: \<open>sys.exit(n)\<close> or an exception nobody catches.\<close>

datatype abort = SysExit nat | Uncaught pyexc

type_synonym 'a outcome = "(abort + 'a) \<times> world"

definition and_then :: "unit outcome \<Rightarrow> (world \<Rightarrow> unit outcome) \<Rightarrow> unit outcome" where
  "and_then r next_stage = (case r of (Inl a, w) \<Rightarrow> (Inl a, w) | (Inr u, w) \<Rightarrow> next_stage w)"

text \<open>
  The status the process ends with: 0 at the end of \<open>main\<close>, the argument of \<open>sys.exit\<close>,
  and for an exception nobody catches the interpreter's 1 (130, death by SIGINT as a
  shell reports it, for KeyboardInterrupt).
\<close>

fun exit_status :: "abort + unit \<Rightarrow> nat" where
  "exit_status (Inr u) = 0"
| "exit_status (Inl (SysExit n)) = n"
| "exit_status (Inl (Uncaught e)) = (if e = KeyboardInterrupt then 130 else 1)"

definition record_event :: "event \<Rightarrow> world \<Rightarrow> world" where
  "record_event e w = w\<lparr>trace := trace w @ [e]\<rparr>"

definition os_path_exists :: "path \<Rightarrow> world \<Rightarrow> bool" where
  "os_path_exists p w = (p \<in> dom (files w))"

text \<open>\<open>os.remove(p)\<close>: the file goes, or the system refuses and OSError is raised.\<close>

definition os_remove :: "env \<Rightarrow> path \<Rightarrow> world \<Rightarrow> pyexc + world" where
  "os_remove E p w =
     (if os_remove_fails E p then Inl OSError
      else Inr (record_event (Remove p) (w\<lparr>files := (files w)(p := None)\<rparr>)))"

text \<open>
  The end of the handlers that clean up: \<open>if os.path.exists(p): os.remove(p)\<close>, then
  \<open>sys.exit(1)\<close>. Nothing catches what \<open>os.remove\<close> raises there.
\<close>

definition remove_and_exit :: "env \<Rightarrow> path \<Rightarrow> world \<Rightarrow> unit outcome" where
  "remove_and_exit E p w =
     (if os_path_exists p w
      then (case os_remove E p w of
              Inl e \<Rightarrow> (Inl (Uncaught e), w)
            | Inr w' \<Rightarrow> (Inl (SysExit 1), w'))
      else (Inl (SysExit 1), w))"

text \<open>\<open>os.statvfs(d)\<close>: the empty path names no directory (ENOENT).\<close>

definition os_statvfs :: "env \<Rightarrow> path \<Rightarrow> (nat \<times> nat) option" where
  "os_statvfs E d = (if d = [] then None else statvfs_result E d)"

text \<open>\<open>os.path.dirname\<close> (posixpath).\<close>

definition dirname :: "path \<Rightarrow> path" where
  "dirname p =
     (let head = rev (dropWhile (\<lambda>c. c \<noteq> CHR ''/'') (rev p))
      in if head \<noteq> [] \<and> head \<noteq> replicate (length head) CHR ''/''
         then rev (dropWhile (\<lambda>c. c = CHR ''/'') (rev head))
         else head)"

text \<open>Running a tool: the call is recorded and the files are what the tool leaves.\<close>

definition run_tool :: "env \<Rightarrow> string list \<Rightarrow> bytes option \<Rightarrow> world \<Rightarrow> proc \<times> world" where
  "run_tool E cmd stdin w =
     (fst (subprocess_run E cmd stdin (files w)),
      record_event (Run cmd stdin) (w\<lparr>files := snd (subprocess_run E cmd stdin (files w))\<rparr>))"

section \<open>Constants\<close>

definition REQUIRED_SPACE_GB :: nat where
  "REQUIRED_SPACE_GB = 2"

definition MIRRORS :: "(string \<times> string) list" where
  "MIRRORS =
     [(''official'', ''http://os.archlinuxarm.org/os/ArchLinuxARM-aarch64-latest.tar.gz''),
      (''tsinghua'',
       ''https://mirrors.tuna.tsinghua.edu.cn/archlinuxarm/os/ArchLinuxARM-aarch64-latest.tar.gz'')]"

text \<open>The commands that \<open>DEPENDENCIES\<close> lists, the same for every platform; the installation
  hints beside them are only printed.\<close>

definition DEPENDENCIES :: "string list" where
  "DEPENDENCIES = [''qemu-img'', ''kpartx'', ''gdisk'', ''mkfs.vfat'', ''mkfs.ext4'', ''bsdtar'']"

definition tar_file :: path where
  "tar_file = ''ArchLinuxARM-aarch64-latest.tar.gz''"

definition gdisk_script :: bytes where
  "gdisk_script =
     ''o\<newline>n\<newline>\<newline>\<newline>+300M\<newline>ef00\<newline>n\<newline>\<newline>\<newline>\<newline>\<newline>w\<newline>y\<newline>''"


section \<open>The functions of the script\<close>

subsection \<open>\<open>check_dependencies\<close>\<close>

definition check_dependencies :: "env \<Rightarrow> abort + unit" where
  "check_dependencies E =
     (let supported =
            (if sys_platform E = ''darwin'' then True
             else case os_release E of
                    None \<Rightarrow> False
                  | Some text \<Rightarrow>
                      let os_release' = map lower text
                      in if contains ''debian'' os_release' \<or> contains ''ubuntu'' os_release'
                         then True
                         else if contains ''arch'' os_release' \<or> contains ''manjaro'' os_release'
                         then True
                         else False);
          missing = filter (\<lambda>cmd. \<not> shutil_which E cmd) DEPENDENCIES
      in if \<not> supported then Inl (SysExit 1)
         else if missing \<noteq> [] then Inl (SysExit 1)
         else Inr ())"

subsection \<open>\<open>download_alarm\<close>\<close>

text \<open>\<open>MIRRORS.get(mirror, MIRRORS["tsinghua"])\<close>; the default is looked up first.\<close>

definition mirror_url :: "string \<Rightarrow> abort + string" where
  "mirror_url mirror =
     (case map_of MIRRORS ''tsinghua'' of
        None \<Rightarrow> Inl (Uncaught KeyError)
      | Some fallback \<Rightarrow>
          Inr (case map_of MIRRORS mirror of Some url \<Rightarrow> url | None \<Rightarrow> fallback))"

text \<open>Lines 116 to 129: curl, and the two handlers, which report the failure, remove the
  output file and exit.\<close>

definition transfer :: "env \<Rightarrow> path \<Rightarrow> string \<Rightarrow> world \<Rightarrow> unit outcome" where
  "transfer E output_file url w =
     (case run_tool E [''curl'', ''-#'', ''-o'', output_file, url] None w of
        (Exited rc err, w') \<Rightarrow>
          if rc = 0 then (Inr (), w')
          else remove_and_exit E output_file (record_event Log_failure w')
      | (Interrupt, w') \<Rightarrow> remove_and_exit E output_file (record_event Log_failure w')
      | (Missing, w') \<Rightarrow> (Inl (Uncaught FileNotFoundError), w'))"

definition download_alarm :: "env \<Rightarrow> path \<Rightarrow> string \<Rightarrow> world \<Rightarrow> unit outcome" where
  "download_alarm E output_file mirror w =
     (case mirror_url mirror of
        Inl a \<Rightarrow> (Inl a, w)
      | Inr url \<Rightarrow>
          let required_space = REQUIRED_SPACE_GB * 1024 ^ 3;
              w' = record_event (Statvfs (dirname output_file)) w
          in (case os_statvfs E (dirname output_file) of
                None \<Rightarrow> (Inl (Uncaught FileNotFoundError), w')
              | Some (f_frsize, f_bavail) \<Rightarrow>
                  if f_frsize * f_bavail < required_space
                  then (Inl (SysExit 1), record_event Log_failure w')
                  else transfer E output_file url w'))"

subsection \<open>\<open>create_image\<close>\<close>

text \<open>Lines 148 to 153: the question asked when the output file exists.\<close>

definition confirm_overwrite :: "env \<Rightarrow> path \<Rightarrow> world \<Rightarrow> unit outcome" where
  "confirm_overwrite E output_file w =
     (if os_path_exists output_file w
      then case input_reply E of
             Line answer \<Rightarrow>
               if map lower (strip_with is_space answer) \<noteq> ''y''
               then (Inl (SysExit 0), record_event Prompt w)
               else (Inr (), record_event Prompt w)
           | End_of_input \<Rightarrow> (Inl (Uncaught EOFError), record_event Prompt w)
           | Ctrl_C \<Rightarrow> (Inl (Uncaught KeyboardInterrupt), record_event Prompt w)
      else (Inr (), w))"

text \<open>
  Lines 155 to 170: \<open>qemu-img create\<close>. The message of either branch that reports the
  captured standard error decodes it first, before anything else is done in that branch.
\<close>

definition allocate :: "env \<Rightarrow> path \<Rightarrow> string \<Rightarrow> world \<Rightarrow> unit outcome" where
  "allocate E output_file size' w =
     (case run_tool E [''qemu-img'', ''create'', ''-f'', ''qcow2'', output_file, size'] None w of
        (Exited rc err, w') \<Rightarrow>
          if rc = 0
          then (if err = Unreadable then (Inl (Uncaught UnicodeDecodeError), w')
                else (Inr (), w'))
          else (if err = Unreadable then (Inl (Uncaught UnicodeDecodeError), w')
                else remove_and_exit E output_file (record_event Log_failure w'))
      | (Interrupt, w') \<Rightarrow> remove_and_exit E output_file (record_event Log_failure w')
      | (Missing, w') \<Rightarrow> (Inl (Uncaught FileNotFoundError), w'))"

text \<open>Lines 172 to 183: gdisk, fed the script; only CalledProcessError is handled.\<close>

definition partition_image :: "env \<Rightarrow> path \<Rightarrow> world \<Rightarrow> unit outcome" where
  "partition_image E output_file w =
     (case run_tool E [''gdisk'', output_file] (Some gdisk_script) w of
        (Exited rc err, w') \<Rightarrow>
          if rc = 0
          then (if err = Unreadable then (Inl (Uncaught UnicodeDecodeError), w')
                else (Inr (), w'))
          else (if err = Unreadable then (Inl (Uncaught UnicodeDecodeError), w')
                else (Inl (SysExit 1), record_event Log_failure w'))
      | (Interrupt, w') \<Rightarrow> (Inl (Uncaught KeyboardInterrupt), w')
      | (Missing, w') \<Rightarrow> (Inl (Uncaught FileNotFoundError), w'))"

definition create_image :: "env \<Rightarrow> path \<Rightarrow> string \<Rightarrow> world \<Rightarrow> unit outcome" where
  "create_image E output_file size' w =
     (case parse_size (int_max_str_digits E) size' of
        Inl e \<Rightarrow> (Inl (SysExit 1), record_event Log_failure w)
      | Inr (size_num', size_unit) \<Rightarrow>
          and_then (confirm_overwrite E output_file w) (\<lambda>w1.
          and_then (allocate E output_file size' w1) (\<lambda>w2.
          partition_image E output_file w2)))"

subsection \<open>\<open>main\<close>\<close>

text \<open>
  The values of the command line, defaults filled in. \<open>parse_args\<close> ends the process with
  status 2 when \<open>--mirror\<close> or \<open>--convert-to\<close> is not one of its \<open>choices\<close>.
\<close>

record args =
  output' :: string
  size' :: string
  mirror :: string
  convert_to :: "string option"
  force :: bool

definition parse_args :: "args \<Rightarrow> abort + unit" where
  "parse_args a =
     (if mirror a \<notin> set [''official'', ''tsinghua''] then Inl (SysExit 2)
      else if convert_to a \<notin> set [None, Some ''vmdk'', Some ''parallels''] then Inl (SysExit 2)
      else Inr ())"

definition main :: "env \<Rightarrow> args \<Rightarrow> world \<Rightarrow> unit outcome" where
  "main E a w =
     and_then (parse_args a, w) (\<lambda>w.
     and_then (check_dependencies E, w) (\<lambda>w.
     and_then (if \<not> os_path_exists tar_file w then download_alarm E tar_file (mirror a) w
               else (Inr (), w)) (\<lambda>w.
     create_image E (output' a) (size' a) w)))"

section \<open>Descriptions the code is compared with\<close>

text \<open>
  What \<open>int()\<close> accepts, said without running it: blanks, then a sign or none, then digit
  groups within the digit limit, then blanks; the value is the number the digits spell with
  the sign.
\<close>

definition int_literal :: "nat \<Rightarrow> nat list \<Rightarrow> int \<Rightarrow> bool" where
  "int_literal lim text n =
     (\<exists>pre sg body post.
        text = pre @ sg @ body @ post \<and> list_all is_int_blank pre \<and> list_all is_int_blank post
        \<and> sg \<in> set [[], [43], [45]] \<and> digit_groups body
        \<and> (lim = 0 \<or> length (filter is_digit body) \<le> lim)
        \<and> n = (if sg = [45] then - int (decimal (filter is_digit body))
                else int (decimal (filter is_digit body))))"

section \<open>The dialogue of gdisk\<close>

text \<open>
  gdisk is not part of the script; this is the dialogue of its main menu as far as the
  script's keys go. A line is read and its first character, in either case, is the
  command. \<open>o\<close> (new empty
  table) asks \<open>Proceed? (Y/N)\<close> and reads lines until one starts with \<open>y\<close> or \<open>n\<close> in
  either case. \<open>n\<close> (new partition) asks for the partition number, the first sector, the
  last sector and the type code, an empty answer taking the default. \<open>w\<close> (write) asks
  \<open>Do you want to proceed? (Y/N)\<close> in the same way and gdisk ends once the table is
  written. A line that is empty or starts with no command of the menu leaves the table as
  it is; a command of the menu other than these three ends the reading here.
\<close>

datatype gdisk_step =
    New_table
  | New_table_declined
  | New_partition string string string string
  | Write_table
  | Write_declined
  | No_command string
  | Not_modelled string

datatype gdisk_state =
    Menu
  | Confirm_new_table
  | Ask_number
  | Ask_first_sector string
  | Ask_last_sector string string
  | Ask_type_code string string string
  | Confirm_write

fun gdisk_reads :: "gdisk_state \<Rightarrow> string list \<Rightarrow> gdisk_step list" where
  "gdisk_reads st [] = []"
| "gdisk_reads Menu (l # ls) =
     (if take 1 (map lower l) = ''o'' then gdisk_reads Confirm_new_table ls
      else if take 1 (map lower l) = ''n'' then gdisk_reads Ask_number ls
      else if take 1 (map lower l) = ''w'' then gdisk_reads Confirm_write ls
      else if take 1 (map lower l) \<in> set [''b'', ''c'', ''d'', ''i'', ''l'', ''p'', ''q'', ''r'',
                                            ''s'', ''t'', ''v'', ''x'', ''?'']
      then [Not_modelled l]
      else No_command l # gdisk_reads Menu ls)"
| "gdisk_reads Confirm_new_table (l # ls) =
     (if take 1 (map lower l) = ''y'' then New_table # gdisk_reads Menu ls
      else if take 1 (map lower l) = ''n'' then New_table_declined # gdisk_reads Menu ls
      else gdisk_reads Confirm_new_table ls)"
| "gdisk_reads Ask_number (l # ls) = gdisk_reads (Ask_first_sector l) ls"
| "gdisk_reads (Ask_first_sector number) (l # ls) = gdisk_reads (Ask_last_sector number l) ls"
| "gdisk_reads (Ask_last_sector number first_sector) (l # ls) =
     gdisk_reads (Ask_type_code number first_sector l) ls"
| "gdisk_reads (Ask_type_code number first_sector last_sector) (l # ls) =
     New_partition number first_sector last_sector l # gdisk_reads Menu ls"
| "gdisk_reads Confirm_write (l # ls) =
     (if take 1 (map lower l) = ''y'' then [Write_table]
      else if take 1 (map lower l) = ''n'' then Write_declined # gdisk_reads Menu ls
      else gdisk_reads Confirm_write ls)"

text \<open>The lines of a text, each ended by a line feed.\<close>

fun lines_from :: "string \<Rightarrow> string \<Rightarrow> string list" where
  "lines_from line [] = (if line = [] then [] else [line])"
| "lines_from line (c # cs) =
     (if c = CHR 0x0A then line # lines_from [] cs else lines_from (line @ [c]) cs)"

definition split_lines :: "string \<Rightarrow> string list" where
  "split_lines s = lines_from [] s"

text \<open>
  The layout as the specification tells it: a new empty table; partition 1 with default
  number and start, size 300M, type \<open>ef00\<close>; partition 2 over the rest, every answer the
  default; the table written.
\<close>

definition spec_partition_steps :: "gdisk_step list" where
  "spec_partition_steps =
     [New_table,
      New_partition [] [] ''+300M'' ''ef00'',
      New_partition [] [] [] [],
      Write_table]"

section \<open>Reading a trace\<close>

text \<open>The events by which the script changes files, or has a tool change them.\<close>

fun changes_files :: "event \<Rightarrow> bool" where
  "changes_files (Statvfs d) = False"
| "changes_files (Run cmd stdin) = True"
| "changes_files Prompt = False"
| "changes_files (Remove p) = True"
| "changes_files Log_failure = False"

text \<open>The events that only \<open>download_alarm\<close> produces: the free-space query and curl.\<close>

fun is_fetch_event :: "event \<Rightarrow> bool" where
  "is_fetch_event (Statvfs d) = True"
| "is_fetch_event (Run cmd stdin) = (take 1 cmd = [''curl''])"
| "is_fetch_event Prompt = False"
| "is_fetch_event (Remove p) = False"
| "is_fetch_event Log_failure = False"

fun is_removal :: "event \<Rightarrow> bool" where
  "is_removal (Remove p) = True"
| "is_removal e = False"

section \<open>Concrete runs\<close>

text \<open>
  Surroundings for the worked examples: an Arch Linux machine with every tool installed,
  4096 * 1000000 bytes free everywhere, no removal refused. Each tool writes the file it is given (curl the
  argument after \<open>-o\<close>, qemu-img the image path, gdisk nothing new) and ends as told.
\<close>

definition scripted_tools ::
  "proc \<Rightarrow> proc \<Rightarrow> proc \<Rightarrow> string list \<Rightarrow> bytes option \<Rightarrow> filesystem \<Rightarrow> proc \<times> filesystem" where
  "scripted_tools curl_ends qemu_img_ends gdisk_ends cmd stdin fs =
     (if take 1 cmd = [''curl''] then (curl_ends, fs(cmd ! 3 \<mapsto> ''partial''))
      else if take 1 cmd = [''qemu-img''] then (qemu_img_ends, fs(cmd ! 4 \<mapsto> ''QFI''))
      else (gdisk_ends, fs))"

definition linux_env ::
  "(string list \<Rightarrow> bytes option \<Rightarrow> filesystem \<Rightarrow> proc \<times> filesystem) \<Rightarrow> reply \<Rightarrow> env" where
  "linux_env tools answer =
     \<lparr>sys_platform = ''linux'', os_release = Some ''ID=arch'', shutil_which = (\<lambda>cmd. True),
      statvfs_result = (\<lambda>d. Some (4096, 1000000)), subprocess_run = tools,
      input_reply = answer, int_max_str_digits = 4300, os_remove_fails = (\<lambda>p. False)\<rparr>"

definition world_with :: "(path \<times> bytes) list \<Rightarrow> world" where
  "world_with present = \<lparr>files = map_of present, trace = []\<rparr>"

definition command_line :: "string \<Rightarrow> string \<Rightarrow> string \<Rightarrow> bool \<Rightarrow> args" where
  "command_line out sz mir forced =
     \<lparr>output' = out, size' = sz, mirror = mir, convert_to = None, force = forced\<rparr>"

section \<open>The size check\<close>

lemma unit_letter: "code_upper c \<in> set [75, 77, 71, 84] \<longleftrightarrow> c \<in> set [75, 77, 71, 84, 107, 109, 103, 116]"
  by (auto simp: code_upper_def)

lemma is_digit_iff: "is_digit c \<longleftrightarrow> (\<exists>zero \<in> set DECIMAL_ZEROS. zero \<le> c \<and> c < zero + 10)"
proof -
  have "is_digit c \<longleftrightarrow> filter (\<lambda>zero. zero \<le> c \<and> c < zero + 10) DECIMAL_ZEROS \<noteq> []"
    by (simp add: is_digit_def decimal_value_def split: list.splits)
  then show ?thesis
    by (simp add: filter_empty_conv)
qed

lemma low_decimal:
  "c < 1632 \<Longrightarrow> decimal_value c = (if 48 \<le> c \<and> c \<le> 57 then Some (c - 48) else None)"
  by (simp add: decimal_value_def DECIMAL_ZEROS_def)

lemma low_digit: "c < 1632 \<Longrightarrow> is_digit c = (48 \<le> c \<and> c \<le> 57)"
  by (simp add: is_digit_def low_decimal)

lemma low_digit_value:
  "c < 1632 \<Longrightarrow> digit_value c = (if 48 \<le> c \<and> c \<le> 57 then c - 48 else 0)"
  by (simp add: digit_value_def low_decimal)

lemma blank_not_digit: "is_int_blank c \<Longrightarrow> \<not> is_digit c"
  unfolding is_int_blank_def
  by (auto simp: low_digit) (simp_all add: is_digit_def decimal_value_def DECIMAL_ZEROS_def)

lemma digit_not_blank: "is_digit c \<Longrightarrow> \<not> is_int_blank c \<and> c \<noteq> 45 \<and> c \<noteq> 43 \<and> c \<noteq> 95"
  using blank_not_digit [of c] by (auto simp: low_digit)

lemma digit_groups_ends: "digit_groups b \<Longrightarrow> b \<noteq> [] \<and> is_digit (hd b) \<and> is_digit (last b)"
  by (induction b rule: digit_groups.induct) (auto split: if_splits)

lemma strip_with_padded:
  assumes "x \<noteq> []" "\<not> P (hd x)" "\<not> P (last x)" "list_all P pre" "list_all P post"
  shows "strip_with P (pre @ x @ post) = x"
proof -
  have a: "dropWhile P (pre @ x @ post) = x @ post"
    using assms(1,2,4) by (cases x) (auto simp: dropWhile_append list_all_iff)
  have b: "dropWhile P (rev post @ rev x) = rev x"
    using assms(1,3,5) by (cases x rule: rev_cases) (auto simp: dropWhile_append list_all_iff)
  show ?thesis by (simp add: strip_with_def a b)
qed

lemma strip_with_split:
  "s = takeWhile P s @ strip_with P s @ rev (takeWhile P (rev (dropWhile P s)))"
proof -
  have "rev (dropWhile P s) = takeWhile P (rev (dropWhile P s)) @ dropWhile P (rev (dropWhile P s))"
    by simp
  then have "dropWhile P s = rev (dropWhile P (rev (dropWhile P s))) @ rev (takeWhile P (rev (dropWhile P s)))"
    by (metis rev_append rev_rev_ident)
  then show ?thesis
    by (metis strip_with_def takeWhile_dropWhile_id)
qed

lemma list_all_takeWhile: "list_all P (takeWhile P s)"
  by (induction s) auto

lemma py_int_signed:
  assumes "digit_groups body" "sg \<in> set [[], [43], [45]]"
    "list_all is_int_blank pre" "list_all is_int_blank post"
  shows "py_int lim (pre @ sg @ body @ post) =
           (if lim = 0 \<or> length (filter is_digit body) \<le> lim
            then Some (if sg = [45] then - int (decimal (filter is_digit body))
                       else int (decimal (filter is_digit body)))
            else None)"
proof -
  from digit_groups_ends [OF assms(1)]
  have b: "body \<noteq> []" "is_digit (hd body)" "is_digit (last body)" by simp_all
  obtain c r where body: "body = c # r" using b(1) by (cases body) auto
  have c: "\<not> is_int_blank c" "c \<noteq> 45" "c \<noteq> 43"
    using b(2) digit_not_blank [of c] by (simp_all add: body)
  have l: "\<not> is_int_blank (last body)"
    using b(3) digit_not_blank [of "last body"] by simp
  have sb: "\<not> is_int_blank 43" "\<not> is_int_blank 45"
    by (simp_all add: is_int_blank_def)
  have x: "sg @ body \<noteq> []" "\<not> is_int_blank (hd (sg @ body))" "\<not> is_int_blank (last (sg @ body))"
    using assms(2) b(1) l c(1) sb by (auto simp: body)
  have s: "strip_with is_int_blank (pre @ sg @ body @ post) = sg @ body"
    using strip_with_padded [OF x assms(3,4)] by simp
  have t: "take 1 (sg @ body) = [45] \<longleftrightarrow> sg = [45]"
    using assms(2) c by (auto simp: body)
  have d: "(if sg = [45] \<or> take 1 (sg @ body) = [43] then drop 1 (sg @ body)
            else sg @ body) = body"
    using assms(2) c by (auto simp: body)
  show ?thesis
    unfolding py_int_def Let_def s t d using assms(1) by simp
qed

lemma py_int_iff: "py_int lim s = Some n \<longleftrightarrow> int_literal lim s n"
proof
  assume p: "py_int lim s = Some n"
  define t where "t = strip_with is_int_blank s"
  define sg where "sg = (if take 1 t = [45] \<or> take 1 t = [43] then take 1 t else [])"
  define body where "body = (if take 1 t = [45] \<or> take 1 t = [43] then drop 1 t else t)"
  have t: "t = sg @ body" by (simp add: sg_def body_def)
  have "s = takeWhile is_int_blank s @ sg @ body
                 @ rev (takeWhile is_int_blank (rev (dropWhile is_int_blank s)))"
    using strip_with_split [of s is_int_blank] by (simp add: t_def [symmetric] t)
  moreover have "list_all is_int_blank (takeWhile is_int_blank s)"
    and "list_all is_int_blank (rev (takeWhile is_int_blank (rev (dropWhile is_int_blank s))))"
    by (simp_all add: list_all_takeWhile)
  moreover have "sg \<in> set [[], [43], [45]]" by (auto simp: sg_def)
  moreover from p have "digit_groups body"
    and "lim = 0 \<or> length (filter is_digit body) \<le> lim"
    and "n = (if sg = [45] then - int (decimal (filter is_digit body))
              else int (decimal (filter is_digit body)))"
    by (auto simp: py_int_def Let_def t_def [symmetric] body_def sg_def split: if_splits)
  ultimately show "int_literal lim s n"
    unfolding int_literal_def by blast
next
  assume "int_literal lim s n"
  then show "py_int lim s = Some n"
    unfolding int_literal_def by (auto simp: py_int_signed simp del: set_simps)
qed

lemma all_digits_groups: "ds \<noteq> [] \<Longrightarrow> list_all is_digit ds \<Longrightarrow> digit_groups ds"
proof (induction ds rule: digit_groups.induct)
  case 1
  then show ?case by simp
next
  case (2 c)
  then show ?case by simp
next
  case (3 c d r)
  have "d \<noteq> 95" using 3(4) digit_not_blank [of d] by auto
  then show ?case using 3 by simp
qed

lemma all_digits_filter: "list_all is_digit ds \<Longrightarrow> filter is_digit ds = ds"
  by (induction ds) auto

lemma py_int_digits:
  assumes "ds \<noteq> []" "list_all is_digit ds"
  shows "py_int lim ds = (if lim = 0 \<or> length ds \<le> lim then Some (int (decimal ds)) else None)"
  using py_int_signed [OF all_digits_groups [OF assms], of "[]" "[]" "[]" lim]
  by (simp add: all_digits_filter [OF assms(2)])

lemma size_check_iff:
  "size_check lim s = Inr (n, u) \<longleftrightarrow>
     (\<exists>t c. s = t @ [c] \<and> int_literal lim t n \<and> c \<in> set [75, 77, 71, 84, 107, 109, 103, 116]
        \<and> u = code_upper c)"
proof (cases s rule: rev_cases)
  case Nil
  then show ?thesis
    by (simp add: size_check_def split: option.splits)
next
  case (snoc t c)
  have "size_check lim (t @ [c]) = Inr (n, u) \<longleftrightarrow>
          py_int lim t = Some n \<and> code_upper c \<in> set [75, 77, 71, 84] \<and> u = code_upper c"
    by (auto simp: size_check_def Let_def simp del: set_simps split: option.splits)
  then show ?thesis
    by (auto simp: snoc py_int_iff unit_letter simp del: set_simps)
qed

lemma plain_digits: "list_all (\<lambda>c. 48 \<le> c \<and> c \<le> 57) ds \<Longrightarrow> list_all is_digit ds"
  by (induction ds) (auto simp: low_digit)

lemma spec_token_passes:
  assumes "spec_size_token s" "lim = 0 \<or> length (butlast s) \<le> lim"
  shows "size_check lim s = Inr (int (decimal (butlast s)), code_upper (last s))"
proof -
  from assms(1) have s: "s \<noteq> []" "butlast s \<noteq> []" "list_all is_digit (butlast s)"
    and u: "last s \<in> set [75, 77, 71, 84, 107, 109, 103, 116]"
    by (simp_all add: spec_size_token_def plain_digits del: set_simps)
  have "py_int lim (butlast s) = Some (int (decimal (butlast s)))"
    using py_int_digits [OF s(2,3)] assms(2) by auto
  moreover have "code_upper (last s) \<in> set [75, 77, 71, 84]"
    using u by (simp only: unit_letter)
  ultimately show ?thesis
    using s(1) by (simp add: size_check_def Let_def del: set_simps)
qed

lemma create_image_rejects:
  "parse_size (int_max_str_digits E) s = Inl e \<Longrightarrow>
     create_image E out s w = (Inl (SysExit 1), w\<lparr>trace := trace w @ [Log_failure]\<rparr>)"
  by (simp add: create_image_def record_event_def)

lemma utf8_decode_ascii: "list_all (\<lambda>b. b < 128) bs \<Longrightarrow> utf8_decode bs = bs"
  by (induction bs) (auto simp: utf8_first_def)

lemmas size_eval = parse_size_def os_fsdecode_def utf8_first_def size_check_def py_int_def
  strip_with_def is_int_blank_def low_digit low_digit_value decimal_def code_upper_def Let_def

text \<open>
  Claim C2, as the code has it. For every \<open>str\<close>, the check accepts it exactly when it is
  an integer literal as \<open>int()\<close> reads it (decimal digits of any script, single underscores
  between them, a sign or none, blanks around, within the digit limit) followed by one of
  K, M, G, T in either case, and gives the integer and the upper-cased letter; no byte
  count is computed. Every token made of the digits of a positive integer and a unit is
  among them. A size argument that the check refuses ends \<open>create_image\<close> with the failure
  reported and \<open>sys.exit(1)\<close>, nothing else done: no default size takes its place.
\<close>

theorem size_check_accepts_exactly:
  "(size_check lim s = Inr (n, u) \<longleftrightarrow>
      (\<exists>t c. s = t @ [c] \<and> int_literal lim t n \<and> c \<in> set [75, 77, 71, 84, 107, 109, 103, 116]
         \<and> u = code_upper c))
   \<and> (spec_size_token s \<and> (lim = 0 \<or> length (butlast s) \<le> lim) \<longrightarrow>
        size_check lim s = Inr (int (decimal (butlast s)), code_upper (last s)))
   \<and> (size_check (int_max_str_digits E) (os_fsdecode arg) = Inl e \<longrightarrow>
        create_image E out arg w = (Inl (SysExit 1), w\<lparr>trace := trace w @ [Log_failure]\<rparr>))"
  using size_check_iff [of lim s n u] spec_token_passes [of s lim]
    create_image_rejects [of E arg e out w]
  by (simp only: parse_size_def) blast

theorem size_check_accepts_exactly_witness:
  "(\<exists>t c. [32, 45, 49, 95, 50, 32, 103] = t @ [c] \<and> int_literal 4300 t (- 12)
      \<and> c \<in> set [75, 77, 71, 84, 107, 109, 103, 116] \<and> 71 = code_upper c)
   \<and> (\<exists>t c. [1633, 1634, 1640, 71] = t @ [c] \<and> int_literal 4300 t 128
      \<and> c \<in> set [75, 77, 71, 84, 107, 109, 103, 116] \<and> 71 = code_upper c)
   \<and> spec_size_token (os_fsdecode ''128G'') \<and> size_check 4300 (os_fsdecode ''128G'') = Inr (128, 71)
   \<and> size_check 4300 (os_fsdecode ''abc'') = Inl ValueError
   \<and> create_image (linux_env (scripted_tools Missing Missing Missing) End_of_input)
        ''alarm.qcow2'' ''abc'' (world_with [])
      = (Inl (SysExit 1), \<lparr>files = Map.empty, trace = [Log_failure]\<rparr>)"
proof -
  let ?E = "linux_env (scripted_tools Missing Missing Missing) End_of_input"
  have a: "size_check 4300 [32, 45, 49, 95, 50, 32, 103] = Inr (- 12, 71)"
    by (simp add: size_eval)
  have d: "decimal_value 1633 = Some 1" "decimal_value 1634 = Some 2" "decimal_value 1640 = Some 8"
    by (simp_all add: decimal_value_def DECIMAL_ZEROS_def)
  have a': "size_check 4300 [1633, 1634, 1640, 71] = Inr (128, 71)"
    by (simp add: size_check_def py_int_def strip_with_def is_int_blank_def is_digit_def
        digit_value_def d decimal_def code_upper_def Let_def)
  have g: "os_fsdecode ''128G'' = [49, 50, 56, 71]"
    by (simp add: os_fsdecode_def utf8_first_def)
  have b: "spec_size_token (os_fsdecode ''128G'')"
    by (simp add: g spec_size_token_def decimal_def low_digit_value)
  have c: "size_check 4300 (os_fsdecode ''abc'') = Inl ValueError"
    by (simp add: size_eval)
  have l: "int_max_str_digits ?E = 4300"
    by (simp add: linux_env_def)
  note padded = size_check_accepts_exactly
    [of 4300 "[32, 45, 49, 95, 50, 32, 103]" "- 12" 71 ?E "''abc''" ValueError "''alarm.qcow2''"
        "world_with []"]
  note arabic = size_check_accepts_exactly
    [of 4300 "[1633, 1634, 1640, 71]" 128 71 ?E "''abc''" ValueError "''alarm.qcow2''"
        "world_with []"]
  note plain = size_check_accepts_exactly
    [of 4300 "os_fsdecode ''128G''" 128 71 ?E "''abc''" ValueError "''alarm.qcow2''"
        "world_with []"]
  from padded a
  have "\<exists>t c. [32, 45, 49, 95, 50, 32, 103] = t @ [c] \<and> int_literal 4300 t (- 12)
          \<and> c \<in> set [75, 77, 71, 84, 107, 109, 103, 116] \<and> 71 = code_upper c"
    by blast
  moreover from arabic a'
  have "\<exists>t c. [1633, 1634, 1640, 71] = t @ [c] \<and> int_literal 4300 t 128
          \<and> c \<in> set [75, 77, 71, 84, 107, 109, 103, 116] \<and> 71 = code_upper c"
    by blast
  moreover from plain b have "size_check 4300 (os_fsdecode ''128G'') = Inr (128, 71)"
    by (simp add: g decimal_def low_digit_value code_upper_def)
  moreover from plain c l
  have "create_image ?E ''alarm.qcow2'' ''abc'' (world_with [])
          = (Inl (SysExit 1), \<lparr>files = Map.empty, trace = [Log_failure]\<rparr>)"
    by (simp add: world_with_def)
  ultimately show ?thesis using b c by blast
qed

text \<open>
  The claim as stated fails: a numeric part that is zero, negative or padded passes the
  check.
\<close>

theorem size_check_counterexample:
  "\<not> spec_size_token (os_fsdecode ''0G'') \<and> size_check 4300 (os_fsdecode ''0G'') = Inr (0, 71)
   \<and> \<not> spec_size_token (os_fsdecode ''-5G'') \<and> size_check 4300 (os_fsdecode ''-5G'') = Inr (- 5, 71)
   \<and> \<not> spec_size_token (os_fsdecode '' 5 G'')
   \<and> size_check 4300 (os_fsdecode '' 5 G'') = Inr (5, 71)"
  by (simp add: size_eval spec_size_token_def)

section \<open>The pipeline\<close>

subsection \<open>A refused size token, and a destination without a directory\<close>

lemma mirror_url_total:
  "mirror_url m = Inr (case map_of MIRRORS m of Some url \<Rightarrow> url
     | None \<Rightarrow> ''https://mirrors.tuna.tsinghua.edu.cn/archlinuxarm/os/ArchLinuxARM-aarch64-latest.tar.gz'')"
  by (simp add: mirror_url_def MIRRORS_def)

lemma dirname_bare: "CHR ''/'' \<notin> set p \<Longrightarrow> dirname p = []"
proof -
  assume "CHR ''/'' \<notin> set p"
  then have "dropWhile (\<lambda>c. c \<noteq> CHR ''/'') (rev p) = []"
    by (simp add: dropWhile_eq_Nil_conv) blast
  then show ?thesis by (simp add: dirname_def)
qed

lemma download_bare:
  "CHR ''/'' \<notin> set p \<Longrightarrow>
     download_alarm E p m w = (Inl (Uncaught FileNotFoundError), record_event (Statvfs []) w)"
  by (simp add: download_alarm_def mirror_url_total dirname_bare os_statvfs_def Let_def)

lemma tar_file_bare: "CHR ''/'' \<notin> set tar_file"
  by (simp add: tar_file_def)

lemma main_with_archive:
  "os_path_exists tar_file w \<Longrightarrow>
     main E a w = and_then (parse_args a, w) (\<lambda>w.
                  and_then (check_dependencies E, w) (\<lambda>w.
                  create_image E (output' a) (size' a) w))"
  by (simp add: main_def and_then_def split: sum.splits)

lemma main_rejected_size:
  assumes "parse_size (int_max_str_digits E) (size' a) = Inl e" "os_path_exists tar_file w"
  shows "main E a w = (Inl (SysExit 2), w) \<or> main E a w = (Inl (SysExit 1), w)
         \<or> main E a w = (Inl (SysExit 1), w\<lparr>trace := trace w @ [Log_failure]\<rparr>)"
proof (cases "parse_args a")
  case (Inl x)
  then show ?thesis
    by (auto simp: main_def and_then_def parse_args_def split: if_splits)
next
  case pa: (Inr u)
  show ?thesis
  proof (cases "check_dependencies E")
    case (Inl x)
    then have "x = SysExit 1"
      by (auto simp: check_dependencies_def Let_def split: if_splits)
    then show ?thesis using pa Inl
      by (simp add: main_def and_then_def)
  next
    case (Inr u')
    then show ?thesis using pa assms
      by (simp add: main_with_archive and_then_def create_image_rejects)
  qed
qed

text \<open>The size plays no part before the download stage: without the archive, \<open>main\<close> has
  gone into \<open>download_alarm\<close> before anything looks at the size.\<close>

lemma download_comes_before_size_check:
  "\<not> os_path_exists tar_file w \<Longrightarrow> main E (a\<lparr>size' := s\<rparr>) w = main E a w"
  by (simp add: main_def and_then_def parse_args_def download_bare [OF tar_file_bare]
      cong del: if_weak_cong split: sum.splits)

lemmas run_eval = main_def and_then_def parse_args_def check_dependencies_def DEPENDENCIES_def
  lower_def os_path_exists_def tar_file_def create_image_def confirm_overwrite_def allocate_def
  partition_image_def run_tool_def record_event_def remove_and_exit_def os_remove_def
  download_alarm_def transfer_def mirror_url_def MIRRORS_def dirname_def os_statvfs_def
  REQUIRED_SPACE_GB_def linux_env_def scripted_tools_def world_with_def command_line_def
  is_space_def

text \<open>
  Claim C1, as the code has it. The size check is the first action of \<open>create_image\<close>: for
  a size token that it refuses, \<open>create_image\<close> reports the failure and ends with
  \<open>sys.exit(1)\<close>, no question asked, no tool run and no file changed. \<open>main\<close> calls
  \<open>create_image\<close> after the download stage, so for the whole run this is proved where the
  download is skipped, the archive being there: the run ends with a status other than 0,
  the files are as they were, and the trace holds no tool run and no removal. The tokens
  refused are those of the theorem of claim C2.
\<close>

theorem rejected_size_exits_before_any_change:
  assumes "parse_size (int_max_str_digits E) (size' a) = Inl e"
  shows "create_image E (output' a) (size' a) w
           = (Inl (SysExit 1), w\<lparr>trace := trace w @ [Log_failure]\<rparr>)
         \<and> (os_path_exists tar_file w \<longrightarrow>
              exit_status (fst (main E a w)) \<noteq> 0
              \<and> files (snd (main E a w)) = files w
              \<and> filter changes_files (trace (snd (main E a w))) = filter changes_files (trace w))"
proof -
  have "os_path_exists tar_file w \<Longrightarrow>
          exit_status (fst (main E a w)) \<noteq> 0
          \<and> files (snd (main E a w)) = files w
          \<and> filter changes_files (trace (snd (main E a w))) = filter changes_files (trace w)"
    using main_rejected_size [OF assms, of w] by auto
  then show ?thesis
    using create_image_rejects [OF assms] by blast
qed

theorem rejected_size_exits_before_any_change_witness:
  "parse_size 4300 ''abc'' = Inl ValueError
   \<and> os_path_exists tar_file (world_with [(tar_file, ''archive'')])
   \<and> exit_status (fst (main (linux_env (scripted_tools Missing Missing Missing) End_of_input)
        (command_line ''alarm.qcow2'' ''abc'' ''tsinghua'' False)
        (world_with [(tar_file, ''archive'')]))) \<noteq> 0
   \<and> files (snd (main (linux_env (scripted_tools Missing Missing Missing) End_of_input)
        (command_line ''alarm.qcow2'' ''abc'' ''tsinghua'' False)
        (world_with [(tar_file, ''archive'')]))) = files (world_with [(tar_file, ''archive'')])"
proof -
  have p: "parse_size (int_max_str_digits (linux_env (scripted_tools Missing Missing Missing) End_of_input))
             (size' (command_line ''alarm.qcow2'' ''abc'' ''tsinghua'' False)) = Inl ValueError"
    by (simp add: linux_env_def command_line_def size_eval)
  have q: "parse_size 4300 ''abc'' = Inl ValueError"
    by (simp add: size_eval)
  have x: "os_path_exists tar_file (world_with [(tar_file, ''archive'')])"
    by (simp add: os_path_exists_def world_with_def)
  show ?thesis
    using rejected_size_exits_before_any_change [OF p, of "world_with [(tar_file, ''archive'')]"] q x
    by simp
qed

text \<open>
  The claim as stated fails. A token that is not a positive integer with a unit, \<open>0G\<close>,
  passes the check: the run allocates the image and ends with status 0. And the check does
  not come before the download stage: with \<open>abc\<close> and no archive, the run has made the
  free-space query of \<open>download_alarm\<close> and ends there, no size failure reported.
\<close>

theorem rejected_size_counterexample:
  "\<not> spec_size_token (os_fsdecode ''0G'')
   \<and> files (world_with [(tar_file, ''archive'')]) ''alarm.qcow2'' = None
   \<and> main (linux_env (scripted_tools Missing (Exited 0 Silent) (Exited 0 Silent)) End_of_input)
        (command_line ''alarm.qcow2'' ''0G'' ''tsinghua'' False)
        (world_with [(tar_file, ''archive'')])
      = (Inr (),
         \<lparr>files = (map_of [(tar_file, ''archive'')])(''alarm.qcow2'' \<mapsto> ''QFI''),
          trace = [Run [''qemu-img'', ''create'', ''-f'', ''qcow2'', ''alarm.qcow2'', ''0G''] None,
                   Run [''gdisk'', ''alarm.qcow2''] (Some gdisk_script)]\<rparr>)
   \<and> parse_size 4300 ''abc'' = Inl ValueError
   \<and> main (linux_env (scripted_tools (Exited 0 Silent) (Exited 0 Silent) (Exited 0 Silent))
              End_of_input)
        (command_line ''alarm.qcow2'' ''abc'' ''tsinghua'' False) (world_with [])
      = (Inl (Uncaught FileNotFoundError), \<lparr>files = Map.empty, trace = [Statvfs []]\<rparr>)"
  by (simp add: run_eval size_eval spec_size_token_def contains.simps)

text \<open>
  Claim C10. The archive name that \<open>main\<close> passes has no directory part; for every such
  destination \<open>os.path.dirname\<close> is the empty string, \<open>os.statvfs\<close> of it raises
  FileNotFoundError, and \<open>download_alarm\<close> ends there, with the query as its only
  event: no comparison of free space, no curl.
\<close>

theorem bare_destination_fails_at_statvfs:
  "CHR ''/'' \<notin> set tar_file
   \<and> (CHR ''/'' \<notin> set p \<longrightarrow>
        dirname p = []
        \<and> os_statvfs E (dirname p) = None
        \<and> download_alarm E p m w
            = (Inl (Uncaught FileNotFoundError), w\<lparr>trace := trace w @ [Statvfs []]\<rparr>))"
  using tar_file_bare dirname_bare [of p] download_bare [of p E m w]
  by (simp add: os_statvfs_def record_event_def)

theorem bare_destination_fails_at_statvfs_witness:
  "dirname tar_file = []
   \<and> download_alarm (linux_env (scripted_tools (Exited 0 Silent) Missing Missing) End_of_input)
        tar_file ''tsinghua'' (world_with [])
      = (Inl (Uncaught FileNotFoundError), \<lparr>files = Map.empty, trace = [Statvfs []]\<rparr>)"
  using bare_destination_fails_at_statvfs [of tar_file
      "linux_env (scripted_tools (Exited 0 Silent) Missing Missing) End_of_input" "''tsinghua''"
      "world_with []"]
  by (simp add: world_with_def)


subsection \<open>The overwrite question and \<open>--force\<close>\<close>

lemma force_is_ignored: "main E (a\<lparr>force := b\<rparr>) w = main E a w"
  by (simp add: main_def parse_args_def cong del: if_weak_cong)

lemma declining_exits_zero:
  assumes "parse_size (int_max_str_digits E) sz = Inr v" "os_path_exists out w"
    "input_reply E = Line answer" "map lower (strip_with is_space answer) \<noteq> ''y''"
  shows "create_image E out sz w = (Inl (SysExit 0), w\<lparr>trace := trace w @ [Prompt]\<rparr>)"
  using assms by (cases v) (simp add: create_image_def and_then_def confirm_overwrite_def record_event_def)

text \<open>
  Claim C3 at a run with \<open>--force\<close>: the output file exists, the user answers \<open>n\<close>. The
  question is asked all the same and the run ends with status 0, the old file untouched.
  \<open>main\<close> never reads the flag (lemma \<open>force_is_ignored\<close>).
\<close>

theorem force_flag_still_prompts:
  "force (command_line ''alarm.qcow2'' ''128G'' ''tsinghua'' True)
   \<and> main (linux_env (scripted_tools Missing (Exited 0 Silent) (Exited 0 Silent)) (Line ''n''))
        (command_line ''alarm.qcow2'' ''128G'' ''tsinghua'' True)
        (world_with [(tar_file, ''archive''), (''alarm.qcow2'', ''old image'')])
      = (Inl (SysExit 0),
         \<lparr>files = map_of [(tar_file, ''archive''), (''alarm.qcow2'', ''old image'')],
          trace = [Prompt]\<rparr>)"
  by (simp add: run_eval size_eval strip_with_def contains.simps)


subsection \<open>Mirror names\<close>

lemma unknown_mirror_not_a_choice:
  "map_of MIRRORS m = None \<Longrightarrow> m \<notin> set [''official'', ''tsinghua'']"
  by (auto simp: MIRRORS_def split: if_splits)

text \<open>
  Claim C4, as the code has it. For a mirror name that is not in \<open>MIRRORS\<close>,
  \<open>download_alarm\<close> does what it does for \<open>tsinghua\<close>; such a name is refused only on the
  command line, where \<open>parse_args\<close> ends the run with status 2 before any stage.
\<close>

theorem unknown_mirror_falls_back:
  assumes "map_of MIRRORS m = None"
  shows "download_alarm E p m w = download_alarm E p ''tsinghua'' w
         \<and> main E (a\<lparr>mirror := m\<rparr>) w = (Inl (SysExit 2), w)"
proof
  have "mirror_url m = mirror_url ''tsinghua''"
    using assms by (simp add: mirror_url_total) (simp add: MIRRORS_def)
  then show "download_alarm E p m w = download_alarm E p ''tsinghua'' w"
    by (simp add: download_alarm_def)
  show "main E (a\<lparr>mirror := m\<rparr>) w = (Inl (SysExit 2), w)"
    using unknown_mirror_not_a_choice [OF assms]
    by (simp add: main_def and_then_def parse_args_def del: set_simps)
qed

theorem unknown_mirror_falls_back_witness:
  "map_of MIRRORS ''ustc'' = None
   \<and> download_alarm (linux_env (scripted_tools (Exited 0 Silent) Missing Missing) End_of_input)
        ''/tmp/alarm.tar.gz'' ''ustc'' (world_with [])
      = download_alarm (linux_env (scripted_tools (Exited 0 Silent) Missing Missing) End_of_input)
        ''/tmp/alarm.tar.gz'' ''tsinghua'' (world_with [])
   \<and> main (linux_env (scripted_tools (Exited 0 Silent) Missing Missing) End_of_input)
        (command_line ''alarm.qcow2'' ''128G'' ''ustc'' False) (world_with [])
      = (Inl (SysExit 2), world_with [])"
proof -
  have u: "map_of MIRRORS ''ustc'' = None"
    by (simp add: MIRRORS_def)
  have c: "(command_line ''alarm.qcow2'' ''128G'' ''ustc'' False)\<lparr>mirror := ''ustc''\<rparr>
             = command_line ''alarm.qcow2'' ''128G'' ''ustc'' False"
    by (simp add: command_line_def)
  show ?thesis
    using unknown_mirror_falls_back [OF u,
        of "linux_env (scripted_tools (Exited 0 Silent) Missing Missing) End_of_input"
           "''/tmp/alarm.tar.gz''" "world_with []"
           "command_line ''alarm.qcow2'' ''128G'' ''ustc'' False"] u
    by (simp only: c)
qed

text \<open>
  The claim as stated fails: asked for the unknown mirror \<open>ustc\<close>, \<open>download_alarm\<close>
  downloads from the tsinghua URL and succeeds.
\<close>

theorem unknown_mirror_counterexample:
  "map_of MIRRORS ''ustc'' = None
   \<and> download_alarm (linux_env (scripted_tools (Exited 0 Silent) Missing Missing) End_of_input)
        ''/tmp/alarm.tar.gz'' ''ustc'' (world_with [])
      = (Inr (),
         \<lparr>files = [''/tmp/alarm.tar.gz'' \<mapsto> ''partial''],
          trace = [Statvfs ''/tmp'',
                   Run [''curl'', ''-#'', ''-o'', ''/tmp/alarm.tar.gz'',
                        ''https://mirrors.tuna.tsinghua.edu.cn/archlinuxarm/os/ArchLinuxARM-aarch64-latest.tar.gz'']
                       None]\<rparr>)"
  by (simp add: run_eval)



subsection \<open>A failed allocation\<close>

lemma remove_and_exit_gone:
  "\<not> os_remove_fails E p \<Longrightarrow>
     fst (remove_and_exit E p w) = Inl (SysExit 1) \<and> \<not> os_path_exists p (snd (remove_and_exit E p w))"
  by (simp add: remove_and_exit_def os_remove_def os_path_exists_def record_event_def)

lemma allocation_failure_cleans_up:
  assumes "fst (subprocess_run E [''qemu-img'', ''create'', ''-f'', ''qcow2'', out, sz] None (files w))
             = Interrupt
           \<or> (\<exists>rc err. fst (subprocess_run E [''qemu-img'', ''create'', ''-f'', ''qcow2'', out, sz]
                 None (files w)) = Exited rc err \<and> rc \<noteq> 0 \<and> err \<noteq> Unreadable)"
    and "\<not> os_remove_fails E out"
  shows "fst (allocate E out sz w) = Inl (SysExit 1)
         \<and> \<not> os_path_exists out (snd (allocate E out sz w))"
proof -
  obtain ended w' where r:
    "run_tool E [''qemu-img'', ''create'', ''-f'', ''qcow2'', out, sz] None w = (ended, w')"
    by (cases "run_tool E [''qemu-img'', ''create'', ''-f'', ''qcow2'', out, sz] None w")
  then have "ended = fst (subprocess_run E [''qemu-img'', ''create'', ''-f'', ''qcow2'', out, sz]
                            None (files w))"
    by (simp add: run_tool_def)
  with assms show ?thesis
    by (auto simp: allocate_def r remove_and_exit_gone)
qed

text \<open>
  Claim C5 at a run where qemu-img has created the file and then fails, with diagnostics
  that are not UTF-8: formatting the error message raises UnicodeDecodeError before the
  removal is reached, and the file stays. With diagnostics that decode, or on Ctrl-C, the
  file is removed where the system lets it be (lemma \<open>allocation_failure_cleans_up\<close>).
\<close>

theorem failed_allocation_leaves_file:
  "create_image (linux_env (scripted_tools Missing (Exited 1 Unreadable) Missing) End_of_input)
     ''alarm.qcow2'' ''128G'' (world_with [])
   = (Inl (Uncaught UnicodeDecodeError),
      \<lparr>files = [''alarm.qcow2'' \<mapsto> ''QFI''],
       trace = [Run [''qemu-img'', ''create'', ''-f'', ''qcow2'', ''alarm.qcow2'', ''128G''] None]\<rparr>)"
  by (simp add: run_eval size_eval)

subsection \<open>Partitioning\<close>

lemma partition_image_run:
  "\<exists>rest. trace (snd (partition_image E out w))
            = trace w @ Run [''gdisk'', out] (Some gdisk_script) # rest
          \<and> (rest = [] \<or> rest = [Log_failure])"
  by (simp add: partition_image_def run_tool_def record_event_def split: proc.splits)

lemma partition_image_files:
  "files (snd (partition_image E out w))
     = snd (subprocess_run E [''gdisk'', out] (Some gdisk_script) (files w))"
  by (simp add: partition_image_def run_tool_def record_event_def split: proc.splits)

text \<open>
  Claim C7 at the script of every run that reaches partitioning. Its lines are \<open>o\<close>, \<open>n\<close>,
  two empty lines, \<open>+300M\<close>, \<open>ef00\<close>, \<open>n\<close>, four empty lines, \<open>w\<close>, \<open>y\<close>, and no line
  answers the question that gdisk asks after \<open>o\<close>. gdisk takes the \<open>n\<close> that follows as
  the answer no: the new table is declined, \<open>+300M\<close> and \<open>ef00\<close> reach the menu, where they
  are no commands, and a single partition with every default is made and written. The
  same keys with \<open>y\<close> after \<open>o\<close> give the sequence of the claim.
\<close>

theorem gdisk_script_declines_new_table:
  "split_lines gdisk_script
     = [''o'', ''n'', [], [], ''+300M'', ''ef00'', ''n'', [], [], [], [], ''w'', ''y'']
   \<and> gdisk_reads Menu (split_lines gdisk_script)
     = [New_table_declined, No_command [], No_command [], No_command ''+300M'',
        No_command ''ef00'', New_partition [] [] [] [], Write_table]
   \<and> gdisk_reads Menu (split_lines gdisk_script) \<noteq> spec_partition_steps
   \<and> gdisk_reads Menu
        [''o'', ''y'', ''n'', [], [], ''+300M'', ''ef00'', ''n'', [], [], [], [], ''w'', ''y'']
     = spec_partition_steps"
proof -
  have l: "split_lines gdisk_script
     = [''o'', ''n'', [], [], ''+300M'', ''ef00'', ''n'', [], [], [], [], ''w'', ''y'']"
    by (simp add: split_lines_def gdisk_script_def)
  have r: "gdisk_reads Menu (split_lines gdisk_script)
     = [New_table_declined, No_command [], No_command [], No_command ''+300M'',
        No_command ''ef00'', New_partition [] [] [] [], Write_table]"
    by (simp add: l lower_def)
  have d: "gdisk_reads Menu (split_lines gdisk_script) \<noteq> spec_partition_steps"
    by (simp add: r spec_partition_steps_def)
  have k: "gdisk_reads Menu
             [''o'', ''y'', ''n'', [], [], ''+300M'', ''ef00'', ''n'', [], [], [], [], ''w'', ''y'']
     = spec_partition_steps"
    by (simp add: spec_partition_steps_def lower_def)
  show ?thesis
    using l r d k by (intro conjI)
qed

lemma confirm_overwrite_passes:
  "confirm_overwrite E out w = (Inr u, w1) \<Longrightarrow>
     files w1 = files w \<and> filter is_removal (trace w1) = filter is_removal (trace w)"
  by (auto simp: confirm_overwrite_def record_event_def split: if_splits reply.splits)

lemma allocate_passes:
  "allocate E out sz w = (Inr u, w1) \<Longrightarrow>
     filter is_removal (trace w1) = filter is_removal (trace w)"
  by (auto simp: allocate_def run_tool_def record_event_def remove_and_exit_def
      split: if_splits proc.splits sum.splits)

lemma partition_image_fails:
  assumes "subprocess_run E [''gdisk'', out] (Some gdisk_script) (files w) = (Exited rc err, fs)"
    "rc \<noteq> 0"
  shows "exit_status (fst (partition_image E out w)) = 1"
  using assms by (simp add: partition_image_def run_tool_def)

lemma partition_image_no_removal:
  "filter is_removal (trace (snd (partition_image E out w))) = filter is_removal (trace w)"
  using partition_image_run [of E out w] by auto

text \<open>
  Claim C6. When the run reaches gdisk and gdisk exits with a code other than 0, the run
  ends with a status other than 0, the files are exactly those gdisk left, and no removal
  was made: an image that gdisk left in place is there at the end.
\<close>

theorem partition_failure_keeps_image:
  assumes "parse_size (int_max_str_digits E) sz = Inr v"
    and "confirm_overwrite E out w = (Inr (), w1)"
    and "allocate E out sz w1 = (Inr (), w2)"
    and "subprocess_run E [''gdisk'', out] (Some gdisk_script) (files w2) = (Exited rc err, fs)"
    and "rc \<noteq> 0"
  shows "exit_status (fst (create_image E out sz w)) \<noteq> 0
         \<and> files (snd (create_image E out sz w)) = fs
         \<and> filter is_removal (trace (snd (create_image E out sz w))) = filter is_removal (trace w)
         \<and> (out \<in> dom fs \<longrightarrow> os_path_exists out (snd (create_image E out sz w)))"
proof -
  have c: "create_image E out sz w = partition_image E out w2"
    using assms(1-3) by (cases v) (simp add: create_image_def and_then_def)
  have "filter is_removal (trace (snd (partition_image E out w2))) = filter is_removal (trace w)"
    using confirm_overwrite_passes [OF assms(2)] allocate_passes [OF assms(3)]
    by (simp add: partition_image_no_removal)
  moreover have "files (snd (partition_image E out w2)) = fs"
    using assms(4) by (simp add: partition_image_files)
  moreover have "exit_status (fst (partition_image E out w2)) = 1"
    using partition_image_fails [OF assms(4,5)] .
  ultimately show ?thesis
    by (simp add: c os_path_exists_def)
qed

theorem partition_failure_keeps_image_witness:
  "exit_status (fst (create_image
      (linux_env (scripted_tools Missing (Exited 0 Silent) (Exited 2 Readable)) End_of_input)
      ''alarm.qcow2'' ''128G'' (world_with []))) \<noteq> 0
   \<and> os_path_exists ''alarm.qcow2'' (snd (create_image
      (linux_env (scripted_tools Missing (Exited 0 Silent) (Exited 2 Readable)) End_of_input)
      ''alarm.qcow2'' ''128G'' (world_with [])))
   \<and> filter is_removal (trace (snd (create_image
      (linux_env (scripted_tools Missing (Exited 0 Silent) (Exited 2 Readable)) End_of_input)
      ''alarm.qcow2'' ''128G'' (world_with [])))) = []"
proof -
  let ?E = "linux_env (scripted_tools Missing (Exited 0 Silent) (Exited 2 Readable)) End_of_input"
  let ?w2 = "\<lparr>files = [''alarm.qcow2'' \<mapsto> ''QFI''],
              trace = [Run [''qemu-img'', ''create'', ''-f'', ''qcow2'', ''alarm.qcow2'', ''128G''] None]\<rparr>"
  have a: "parse_size (int_max_str_digits ?E) ''128G'' = Inr (128, 71)"
    by (simp add: linux_env_def size_eval)
  have b: "confirm_overwrite ?E ''alarm.qcow2'' (world_with []) = (Inr (), world_with [])"
    by (simp add: confirm_overwrite_def os_path_exists_def world_with_def)
  have c: "allocate ?E ''alarm.qcow2'' ''128G'' (world_with []) = (Inr (), ?w2)"
    by (simp add: run_eval)
  have d: "subprocess_run ?E [''gdisk'', ''alarm.qcow2''] (Some gdisk_script) (files ?w2)
             = (Exited 2 Readable, [''alarm.qcow2'' \<mapsto> ''QFI''])"
    by (simp add: linux_env_def scripted_tools_def)
  have e: "(2::int) \<noteq> 0" by simp
  show ?thesis
    using partition_failure_keeps_image [OF a b c d e]
    by (simp add: world_with_def)
qed

subsection \<open>A failed download\<close>

lemma remove_and_exit_trace:
  "\<not> os_remove_fails E p \<Longrightarrow>
     trace (snd (remove_and_exit E p w)) = trace w @ (if os_path_exists p w then [Remove p] else [])"
  by (simp add: remove_and_exit_def os_remove_def record_event_def)

lemma transfer_failure_cleans_up:
  assumes "fst (subprocess_run E [''curl'', ''-#'', ''-o'', p, url] None (files w)) = Interrupt
           \<or> (\<exists>rc err. fst (subprocess_run E [''curl'', ''-#'', ''-o'', p, url] None (files w))
                 = Exited rc err \<and> rc \<noteq> 0)"
    and "\<not> os_remove_fails E p"
  shows "fst (transfer E p url w) = Inl (SysExit 1)
         \<and> \<not> os_path_exists p (snd (transfer E p url w))
         \<and> trace (snd (transfer E p url w))
             = trace w @ [Run [''curl'', ''-#'', ''-o'', p, url] None, Log_failure]
               @ (if p \<in> dom (snd (subprocess_run E [''curl'', ''-#'', ''-o'', p, url] None (files w)))
                  then [Remove p] else [])"
proof -
  let ?cmd = "[''curl'', ''-#'', ''-o'', p, url]"
  let ?w = "record_event Log_failure
              (record_event (Run ?cmd None) (w\<lparr>files := snd (subprocess_run E ?cmd None (files w))\<rparr>))"
  have t: "transfer E p url w = remove_and_exit E p ?w"
    using assms(1) by (auto simp: transfer_def run_tool_def)
  have "os_path_exists p ?w \<longleftrightarrow> p \<in> dom (snd (subprocess_run E ?cmd None (files w)))"
    by (simp add: os_path_exists_def record_event_def)
  then show ?thesis
    using remove_and_exit_gone [OF assms(2), of ?w] remove_and_exit_trace [OF assms(2), of ?w]
    by (simp add: t) (simp add: record_event_def)
qed

text \<open>
  Claim C8, as the code has it. When the free-space check passes and curl then exits with
  a code other than 0 or is interrupted, \<open>download_alarm\<close> first reports the failure to
  the log, then removes the file at the destination if there is one, then ends with
  \<open>sys.exit(1)\<close>; where the system does not refuse the removal, no file is left at the
  destination.
\<close>

theorem failed_download_removes_archive:
  assumes "os_statvfs E (dirname p) = Some (f_frsize, f_bavail)"
    and "\<not> f_frsize * f_bavail < REQUIRED_SPACE_GB * 1024 ^ 3"
    and "mirror_url m = Inr url"
    and "fst (subprocess_run E [''curl'', ''-#'', ''-o'', p, url] None (files w)) = Interrupt
         \<or> (\<exists>rc err. fst (subprocess_run E [''curl'', ''-#'', ''-o'', p, url] None (files w))
               = Exited rc err \<and> rc \<noteq> 0)"
    and "\<not> os_remove_fails E p"
  shows "fst (download_alarm E p m w) = Inl (SysExit 1)
         \<and> exit_status (fst (download_alarm E p m w)) \<noteq> 0
         \<and> \<not> os_path_exists p (snd (download_alarm E p m w))
         \<and> trace (snd (download_alarm E p m w))
             = trace w @ [Statvfs (dirname p), Run [''curl'', ''-#'', ''-o'', p, url] None, Log_failure]
               @ (if p \<in> dom (snd (subprocess_run E [''curl'', ''-#'', ''-o'', p, url] None (files w)))
                  then [Remove p] else [])"
proof -
  let ?w = "record_event (Statvfs (dirname p)) w"
  have d: "download_alarm E p m w = transfer E p url ?w"
    using assms(1-3) by (simp add: download_alarm_def Let_def)
  have f: "files ?w = files w" "trace ?w = trace w @ [Statvfs (dirname p)]"
    by (simp_all add: record_event_def)
  show ?thesis
    using assms(4) transfer_failure_cleans_up [of E p url ?w, OF _ assms(5)]
    by (simp add: d f)
qed

theorem failed_download_removes_archive_witness:
  "fst (download_alarm (linux_env (scripted_tools (Exited 22 Silent) Missing Missing) End_of_input)
         ''/tmp/alarm.tar.gz'' ''official'' (world_with [])) = Inl (SysExit 1)
   \<and> \<not> os_path_exists ''/tmp/alarm.tar.gz''
         (snd (download_alarm (linux_env (scripted_tools (Exited 22 Silent) Missing Missing) End_of_input)
                 ''/tmp/alarm.tar.gz'' ''official'' (world_with [])))
   \<and> trace (snd (download_alarm (linux_env (scripted_tools (Exited 22 Silent) Missing Missing) End_of_input)
                 ''/tmp/alarm.tar.gz'' ''official'' (world_with [])))
       = [Statvfs ''/tmp'',
          Run [''curl'', ''-#'', ''-o'', ''/tmp/alarm.tar.gz'',
               ''http://os.archlinuxarm.org/os/ArchLinuxARM-aarch64-latest.tar.gz''] None,
          Log_failure,
          Remove ''/tmp/alarm.tar.gz'']"
proof -
  let ?E = "linux_env (scripted_tools (Exited 22 Silent) Missing Missing) End_of_input"
  let ?url = "''http://os.archlinuxarm.org/os/ArchLinuxARM-aarch64-latest.tar.gz''"
  have a: "os_statvfs ?E (dirname ''/tmp/alarm.tar.gz'') = Some (4096, 1000000)"
    by (simp add: os_statvfs_def dirname_def linux_env_def)
  have b: "\<not> (4096::nat) * 1000000 < REQUIRED_SPACE_GB * 1024 ^ 3"
    by (simp add: REQUIRED_SPACE_GB_def)
  have c: "mirror_url ''official'' = Inr ?url"
    by (simp add: mirror_url_def MIRRORS_def)
  have s: "subprocess_run ?E [''curl'', ''-#'', ''-o'', ''/tmp/alarm.tar.gz'', ?url] None
             (files (world_with []))
           = (Exited 22 Silent, [''/tmp/alarm.tar.gz'' \<mapsto> ''partial''])"
    by (simp add: linux_env_def scripted_tools_def world_with_def)
  then have d: "fst (subprocess_run ?E [''curl'', ''-#'', ''-o'', ''/tmp/alarm.tar.gz'', ?url] None
                 (files (world_with []))) = Interrupt
         \<or> (\<exists>rc err. fst (subprocess_run ?E [''curl'', ''-#'', ''-o'', ''/tmp/alarm.tar.gz'', ?url] None
                 (files (world_with []))) = Exited rc err \<and> rc \<noteq> 0)"
    by simp
  have e: "\<not> os_remove_fails ?E ''/tmp/alarm.tar.gz''"
    by (simp add: linux_env_def)
  have dir: "dirname ''/tmp/alarm.tar.gz'' = ''/tmp''"
    by (simp add: dirname_def)
  have tw: "trace (world_with []) = []"
    by (simp add: world_with_def)
  show ?thesis
    using failed_download_removes_archive [OF a b c d e]
    by (simp add: s dir tw)
qed

text \<open>
  The claim as stated fails. The failure is reported while the partial file is still
  there, the removal comes after it; and where the system refuses the removal, the run dies
  of the OSError with the partial file left at the destination.
\<close>

theorem failed_download_counterexample:
  "download_alarm (linux_env (scripted_tools (Exited 22 Silent) Missing Missing) End_of_input)
     ''/tmp/alarm.tar.gz'' ''official'' (world_with [])
   = (Inl (SysExit 1),
      \<lparr>files = Map.empty,
       trace = [Statvfs ''/tmp'',
                Run [''curl'', ''-#'', ''-o'', ''/tmp/alarm.tar.gz'',
                     ''http://os.archlinuxarm.org/os/ArchLinuxARM-aarch64-latest.tar.gz''] None,
                Log_failure,
                Remove ''/tmp/alarm.tar.gz'']\<rparr>)
   \<and> download_alarm
       ((linux_env (scripted_tools (Exited 22 Silent) Missing Missing) End_of_input)
          \<lparr>os_remove_fails := (\<lambda>p. True)\<rparr>)
       ''/tmp/alarm.tar.gz'' ''official'' (world_with [])
     = (Inl (Uncaught OSError),
        \<lparr>files = [''/tmp/alarm.tar.gz'' \<mapsto> ''partial''],
         trace = [Statvfs ''/tmp'',
                  Run [''curl'', ''-#'', ''-o'', ''/tmp/alarm.tar.gz'',
                       ''http://os.archlinuxarm.org/os/ArchLinuxARM-aarch64-latest.tar.gz''] None,
                  Log_failure]\<rparr>)"
  by (simp add: run_eval)

subsection \<open>An archive that is already there\<close>

lemma and_then_keeps:
  assumes "Q (snd r)" "\<And>w. Q w \<Longrightarrow> Q (snd (k w))"
  shows "Q (snd (and_then r k))"
  using assms by (cases r) (auto simp: and_then_def split: sum.splits)

lemma confirm_overwrite_no_fetch:
  "filter is_fetch_event (trace (snd (confirm_overwrite E out w))) = filter is_fetch_event (trace w)"
  by (simp add: confirm_overwrite_def record_event_def split: reply.splits)

lemma remove_and_exit_no_fetch:
  "filter is_fetch_event (trace (snd (remove_and_exit E p w))) = filter is_fetch_event (trace w)"
  by (simp add: remove_and_exit_def os_remove_def record_event_def)

lemma allocate_no_fetch:
  "filter is_fetch_event (trace (snd (allocate E out sz w))) = filter is_fetch_event (trace w)"
  by (simp add: allocate_def run_tool_def remove_and_exit_no_fetch split: proc.splits)
     (simp add: record_event_def)

lemma partition_image_no_fetch:
  "filter is_fetch_event (trace (snd (partition_image E out w))) = filter is_fetch_event (trace w)"
  using partition_image_run [of E out w] by auto

lemma create_image_no_fetch:
  "filter is_fetch_event (trace (snd (create_image E out sz w))) = filter is_fetch_event (trace w)"
proof (cases "parse_size (int_max_str_digits E) sz")
  case (Inl e)
  then show ?thesis by (simp add: create_image_def record_event_def)
next
  case (Inr v)
  let ?Q = "\<lambda>w' :: world. filter is_fetch_event (trace w') = filter is_fetch_event (trace w)"
  have "?Q (snd (and_then (confirm_overwrite E out w) (\<lambda>w1.
          and_then (allocate E out sz w1) (\<lambda>w2. partition_image E out w2))))"
  proof (rule and_then_keeps [where Q = ?Q])
    show "?Q (snd (confirm_overwrite E out w))" by (rule confirm_overwrite_no_fetch)
  next
    fix w1 :: world assume q1: "?Q w1"
    show "?Q (snd (and_then (allocate E out sz w1) (\<lambda>w2. partition_image E out w2)))"
    proof (rule and_then_keeps [where Q = ?Q])
      show "?Q (snd (allocate E out sz w1))" using q1 by (simp add: allocate_no_fetch)
    next
      fix w2 :: world assume "?Q w2"
      then show "?Q (snd (partition_image E out w2))" by (simp add: partition_image_no_fetch)
    qed
  qed
  then show ?thesis using Inr by (cases v) (simp add: create_image_def)
qed

lemma download_alarm_starts_with_query:
  "\<exists>rest. trace (snd (download_alarm E p m w)) = trace w @ Statvfs (dirname p) # rest"
  by (auto simp: download_alarm_def mirror_url_total transfer_def run_tool_def record_event_def
        remove_and_exit_def os_remove_def Let_def split: option.splits proc.splits)

text \<open>
  Claim C9. When the archive file exists (empty or not), \<open>main\<close> goes from the dependency
  check straight to \<open>create_image\<close>: the trace gains no free-space query and no curl run,
  the two events with which every call of \<open>download_alarm\<close> begins.
\<close>

theorem present_archive_skips_download:
  assumes "os_path_exists tar_file w"
  shows "main E a w = and_then (parse_args a, w) (\<lambda>w.
                      and_then (check_dependencies E, w) (\<lambda>w.
                      create_image E (output' a) (size' a) w))
         \<and> filter is_fetch_event (trace (snd (main E a w))) = filter is_fetch_event (trace w)
         \<and> filter is_fetch_event (trace (snd (download_alarm E tar_file (mirror a) w)))
             \<noteq> filter is_fetch_event (trace w)"
proof -
  have m: "main E a w = and_then (parse_args a, w) (\<lambda>w.
                        and_then (check_dependencies E, w) (\<lambda>w.
                        create_image E (output' a) (size' a) w))"
    using assms by (rule main_with_archive)
  have "filter is_fetch_event (trace (snd (main E a w))) = filter is_fetch_event (trace w)"
    by (simp add: m and_then_def create_image_no_fetch split: sum.splits)
  moreover have "filter is_fetch_event (trace (snd (download_alarm E tar_file (mirror a) w)))
                   \<noteq> filter is_fetch_event (trace w)"
    using download_alarm_starts_with_query [of E tar_file "mirror a" w] by auto
  ultimately show ?thesis using m by simp
qed

theorem present_archive_skips_download_witness:
  "os_path_exists tar_file (world_with [(tar_file, ''archive'')])
   \<and> filter is_fetch_event (trace (snd (main
        (linux_env (scripted_tools (Exited 0 Silent) (Exited 0 Silent) (Exited 0 Silent)) End_of_input)
        (command_line ''alarm.qcow2'' ''128G'' ''tsinghua'' False)
        (world_with [(tar_file, ''archive'')])))) = []
   \<and> fst (main
        (linux_env (scripted_tools (Exited 0 Silent) (Exited 0 Silent) (Exited 0 Silent)) End_of_input)
        (command_line ''alarm.qcow2'' ''128G'' ''tsinghua'' False)
        (world_with [(tar_file, ''archive'')])) = Inr ()"
proof -
  have a: "os_path_exists tar_file (world_with [(tar_file, ''archive'')])"
    by (simp add: os_path_exists_def world_with_def)
  have b: "fst (main
        (linux_env (scripted_tools (Exited 0 Silent) (Exited 0 Silent) (Exited 0 Silent)) End_of_input)
        (command_line ''alarm.qcow2'' ''128G'' ''tsinghua'' False)
        (world_with [(tar_file, ''archive'')])) = Inr ()"
    by (simp add: run_eval size_eval contains.simps)
  show ?thesis
    using present_archive_skips_download [OF a,
        of "linux_env (scripted_tools (Exited 0 Silent) (Exited 0 Silent) (Exited 0 Silent)) End_of_input"
           "command_line ''alarm.qcow2'' ''128G'' ''tsinghua'' False", THEN conjunct2, THEN conjunct1]
      a b
    by (simp add: world_with_def)
qed

text \<open>Through \<open>main\<close>, a missing archive therefore always ends the run at the free-space
  query.\<close>

lemma main_without_archive:
  assumes "parse_args a = Inr ()" "check_dependencies E = Inr ()" "\<not> os_path_exists tar_file w"
  shows "main E a w = (Inl (Uncaught FileNotFoundError), w\<lparr>trace := trace w @ [Statvfs []]\<rparr>)"
  using assms
  by (simp add: main_def and_then_def download_bare [OF tar_file_bare] record_event_def)

end
